theory Spec2Isabelle
  imports Complex_Main "HOL-Library.Multiset" "HOL-Library.Sublist"
begin

section \<open>JavaScript numbers\<close>

text \<open>
  A value of the TypeScript type \<open>number\<close>: a finite double (held by its exact real
  value), the two infinities, or NaN.  Comparisons are those of IEEE 754: any comparison
  with NaN is false.  The sign of zero is not represented.

  The subtraction \<open>js_sub\<close> is used where only the sign of a difference of two doubles
  is read, or where the operands are integral epoch milliseconds; there the exact
  difference and the rounded one agree, and \<open>js_sub\<close> computes the exact one.  The sum
  and the quotient of the average are rounded as the doubles are: \<open>fl_add\<close> and
  \<open>fl_div\<close> below round every finite result to the nearest double.

  The interfaces declare every numeric field as \<open>number\<close>, and that is what the model
  holds.  In the comparisons, the arithmetic, the negation \<open>!\<close> and \<open>isNaN\<close> a field
  that is absent at run time (\<open>undefined\<close>) behaves exactly as NaN does, so there NaN
  also stands for an absent number.  A method call such as \<open>toFixed\<close> exists on
  numbers only; where the code makes one, the value is a number as declared.
\<close>

datatype jsnum = Fin real | PInf | NInf | NaN

fun js_lt :: "jsnum \<Rightarrow> jsnum \<Rightarrow> bool" where
  "js_lt NaN _ = False"
| "js_lt _ NaN = False"
| "js_lt (Fin a) (Fin b) = (a < b)"
| "js_lt (Fin a) PInf = True"
| "js_lt (Fin a) NInf = False"
| "js_lt PInf _ = False"
| "js_lt NInf NInf = False"
| "js_lt NInf _ = True"

fun js_le :: "jsnum \<Rightarrow> jsnum \<Rightarrow> bool" where
  "js_le NaN _ = False"
| "js_le _ NaN = False"
| "js_le (Fin a) (Fin b) = (a \<le> b)"
| "js_le (Fin a) PInf = True"
| "js_le (Fin a) NInf = False"
| "js_le PInf PInf = True"
| "js_le PInf _ = False"
| "js_le NInf _ = True"

definition js_gt :: "jsnum \<Rightarrow> jsnum \<Rightarrow> bool" where
  "js_gt a b = js_lt b a"

definition js_ge :: "jsnum \<Rightarrow> jsnum \<Rightarrow> bool" where
  "js_ge a b = js_le b a"

text \<open>The operator \<open>==\<close> on two numbers: NaN is not equal to itself.\<close>

definition js_eq :: "jsnum \<Rightarrow> jsnum \<Rightarrow> bool" where
  "js_eq a b = (a \<noteq> NaN \<and> a = b)"

fun js_neg :: "jsnum \<Rightarrow> jsnum" where
  "js_neg (Fin a) = Fin (- a)"
| "js_neg PInf = NInf"
| "js_neg NInf = PInf"
| "js_neg NaN = NaN"

fun js_add :: "jsnum \<Rightarrow> jsnum \<Rightarrow> jsnum" where
  "js_add NaN _ = NaN"
| "js_add _ NaN = NaN"
| "js_add (Fin a) (Fin b) = Fin (a + b)"
| "js_add (Fin a) PInf = PInf"
| "js_add (Fin a) NInf = NInf"
| "js_add PInf NInf = NaN"
| "js_add PInf _ = PInf"
| "js_add NInf PInf = NaN"
| "js_add NInf _ = NInf"

definition js_sub :: "jsnum \<Rightarrow> jsnum \<Rightarrow> jsnum" where
  "js_sub a b = js_add a (js_neg b)"

text \<open>Truthiness of a number: \<open>0\<close> and NaN are falsy.\<close>

definition truthy :: "jsnum \<Rightarrow> bool" where
  "truthy x = (x \<noteq> Fin 0 \<and> x \<noteq> NaN)"

text \<open>The global \<open>isNaN\<close> on a number.\<close>

definition isNaN :: "jsnum \<Rightarrow> bool" where
  "isNaN x = (x = NaN)"

section \<open>Rounding to a double\<close>

text \<open>
  The arithmetic of IEEE 754 binary64 computes the exact result and rounds it to the
  nearest double, ties to the even significand; a result that rounds to \<open>2^1024\<close> or
  beyond is an infinity.  The doubles near \<open>x\<close> are the integral multiples of
  \<open>2^(e - 52)\<close>, where \<open>2^e <= |x| < 2^(e + 1)\<close>, and of \<open>2^(-1074)\<close> below the
  normal range.
\<close>

definition ulp_exp :: "real \<Rightarrow> int" where
  "ulp_exp x = (if x = 0 then - 1074 else max (- 1074) (\<lfloor>log 2 \<bar>x\<bar>\<rfloor> - 52))"

definition round_even :: "real \<Rightarrow> int" where
  "round_even y =
     (let f = \<lfloor>y\<rfloor> in
      if y - of_int f < 1 / 2 then f
      else if y - of_int f > 1 / 2 then f + 1
      else if even f then f else f + 1)"

definition fl :: "real \<Rightarrow> jsnum" where
  "fl x =
     (let q = 2 powr of_int (ulp_exp x);
          v = of_int (round_even (x / q)) * q
      in if v \<ge> 2 ^ 1024 then PInf else if v \<le> - (2 ^ 1024) then NInf else Fin v)"

text \<open>The operator \<open>+\<close> on two numbers.\<close>

fun fl_add :: "jsnum \<Rightarrow> jsnum \<Rightarrow> jsnum" where
  "fl_add NaN _ = NaN"
| "fl_add _ NaN = NaN"
| "fl_add (Fin a) (Fin b) = fl (a + b)"
| "fl_add (Fin a) PInf = PInf"
| "fl_add (Fin a) NInf = NInf"
| "fl_add PInf NInf = NaN"
| "fl_add PInf _ = PInf"
| "fl_add NInf PInf = NaN"
| "fl_add NInf _ = NInf"

text \<open>
  The operator \<open>/\<close> on two numbers.  The divisor below is always the length of an
  array, so a zero divisor is the positive zero.
\<close>

fun fl_div :: "jsnum \<Rightarrow> jsnum \<Rightarrow> jsnum" where
  "fl_div NaN _ = NaN"
| "fl_div _ NaN = NaN"
| "fl_div (Fin a) (Fin b) =
     (if b \<noteq> 0 then fl (a / b) else if a > 0 then PInf else if a < 0 then NInf else NaN)"
| "fl_div (Fin a) _ = Fin 0"
| "fl_div PInf (Fin b) = (if b \<ge> 0 then PInf else NInf)"
| "fl_div NInf (Fin b) = (if b \<ge> 0 then NInf else PInf)"
| "fl_div _ _ = NaN"

section \<open>The feed's records\<close>

text \<open>
  The interface \<open>Earthquake\<close>, with the fields the components read.  The coordinates
  are the triple \<open>[longitude, latitude, depth]\<close>.
\<close>

record Properties =
  mag :: jsnum
  place :: string
  time :: jsnum
  title :: string

record Geometry =
  coordinates :: "jsnum \<times> jsnum \<times> jsnum"

record Earthquake =
  id :: string
  properties :: Properties
  geometry :: Geometry

section \<open>The filter effect of EarthquakeVisualizer\<close>

text \<open>
  \<open>magnitudeFilter[0]\<close>: the state is an array of numbers (the slider's value); reading
  index 0 of an empty array gives \<open>undefined\<close>.
\<close>

definition magnitudeFilter0 :: "jsnum list \<Rightarrow> jsnum" where
  "magnitudeFilter0 magnitudeFilter = (case magnitudeFilter of [] \<Rightarrow> NaN | m # _ \<Rightarrow> m)"

text \<open>
  The object literal indexed by \<open>timeFilter\<close>, followed by \<open>|| 0\<close>.  The state
  \<open>timeFilter\<close> only ever holds one of the four values of the select control; names
  inherited from the object prototype are not looked up here.
\<close>

definition timeThreshold :: "string \<Rightarrow> jsnum" where
  "timeThreshold timeFilter =
     (case map_of [(''1h'', Fin (60 * 60 * 1000)),
                   (''6h'', Fin (6 * 60 * 60 * 1000)),
                   (''12h'', Fin (12 * 60 * 60 * 1000))] timeFilter of
        Some v \<Rightarrow> (if truthy v then v else Fin 0)
      | None \<Rightarrow> Fin 0)"

text \<open>
  The body of the effect that computes \<open>filteredEarthquakes\<close>; \<open>now\<close> is the value of
  the one call of \<open>Date.now()\<close>, an integral number of milliseconds.
\<close>

definition filterEarthquakes ::
  "Earthquake list \<Rightarrow> jsnum list \<Rightarrow> string \<Rightarrow> int \<Rightarrow> Earthquake list" where
  "filterEarthquakes earthquakes magnitudeFilter timeFilter now =
     (let filtered = earthquakes;
          filtered =
            (if js_gt (magnitudeFilter0 magnitudeFilter) (Fin 0)
             then filter (\<lambda>eq. js_ge (mag (properties eq)) (magnitudeFilter0 magnitudeFilter)) filtered
             else filtered);
          filtered =
            (if timeFilter \<noteq> ''all''
             then filter (\<lambda>eq. js_le (js_sub (Fin (of_int now)) (time (properties eq)))
                                      (timeThreshold timeFilter)) filtered
             else filtered)
      in filtered)"

section \<open>Ranking and summary cards of EarthquakeVisualizer\<close>

text \<open>
  \<open>Array.prototype.sort\<close> with a comparison function.  The language requires the sort
  to be stable, and a comparison result of NaN counts as 0; with a consistent comparison
  function the resulting order is determined, and it is the one of this insertion sort:
  an element moves behind exactly those elements that the comparison function puts
  strictly before it.
\<close>

fun insertBy :: "('a \<Rightarrow> 'a \<Rightarrow> jsnum) \<Rightarrow> 'a \<Rightarrow> 'a list \<Rightarrow> 'a list" where
  "insertBy cmp x [] = [x]"
| "insertBy cmp x (y # ys) =
     (if js_gt (cmp x y) (Fin 0) then y # insertBy cmp x ys else x # y # ys)"

fun js_sort :: "('a \<Rightarrow> 'a \<Rightarrow> jsnum) \<Rightarrow> 'a list \<Rightarrow> 'a list" where
  "js_sort cmp [] = []"
| "js_sort cmp (x # xs) = insertBy cmp x (js_sort cmp xs)"

text \<open>The comparison function \<open>(a, b) => b.properties.mag - a.properties.mag\<close>.\<close>

definition byMagDesc :: "Earthquake \<Rightarrow> Earthquake \<Rightarrow> jsnum" where
  "byMagDesc a b = js_sub (mag (properties b)) (mag (properties a))"

definition significantEarthquakes :: "Earthquake list \<Rightarrow> Earthquake list" where
  "significantEarthquakes filteredEarthquakes =
     take 5 (drop 0 (js_sort byMagDesc
       (filter (\<lambda>eq. js_ge (mag (properties eq)) (Fin 2.5)) filteredEarthquakes)))"

definition getMagnitudeColor :: "jsnum \<Rightarrow> string" where
  "getMagnitudeColor magnitude =
     (if js_ge magnitude (Fin 7) then ''bg-destructive''
      else if js_ge magnitude (Fin 5) then ''bg-orange-500''
      else if js_ge magnitude (Fin 3) then ''bg-yellow-500''
      else if js_ge magnitude (Fin 1) then ''bg-blue-500''
      else ''bg-green-500'')"

definition getMagnitudeLabel :: "jsnum \<Rightarrow> string" where
  "getMagnitudeLabel magnitude =
     (if js_ge magnitude (Fin 7) then ''Major''
      else if js_ge magnitude (Fin 5) then ''Moderate''
      else if js_ge magnitude (Fin 3) then ''Light''
      else if js_ge magnitude (Fin 1) then ''Minor''
      else ''Micro'')"

text \<open>
  What a summary card shows: either a number handed to \<open>toFixed(1)\<close> (the rounding to
  one decimal for display is not modelled) or a string literal.
\<close>

datatype shown = ToFixed1 jsnum | Literal string

text \<open>\<open>Math.max\<close> of a list of arguments: minus infinity for none, NaN if any is NaN.\<close>

definition js_max2 :: "jsnum \<Rightarrow> jsnum \<Rightarrow> jsnum" where
  "js_max2 a b = (if a = NaN \<or> b = NaN then NaN else if js_lt a b then b else a)"

definition Math_max :: "jsnum list \<Rightarrow> jsnum" where
  "Math_max xs = foldl js_max2 NInf xs"

text \<open>The property \<open>length\<close> of an array, as a number.\<close>

definition js_length :: "'a list \<Rightarrow> jsnum" where
  "js_length xs = Fin (of_nat (length xs))"

text \<open>
  The four expressions of the summary cards, named after the cards' titles: "Total
  Earthquakes", "Significant Events", "Strongest Event" and "Average Magnitude".  Each
  reads \<open>filteredEarthquakes\<close> only.
\<close>

definition totalEarthquakes :: "Earthquake list \<Rightarrow> nat" where
  "totalEarthquakes filteredEarthquakes = length filteredEarthquakes"

definition significantEvents :: "Earthquake list \<Rightarrow> nat" where
  "significantEvents filteredEarthquakes =
     length (filter (\<lambda>eq. js_ge (mag (properties eq)) (Fin 2.5)) filteredEarthquakes)"

definition strongestEvent :: "Earthquake list \<Rightarrow> shown" where
  "strongestEvent filteredEarthquakes =
     (if length filteredEarthquakes > 0
      then ToFixed1 (Math_max (map (\<lambda>eq. mag (properties eq)) filteredEarthquakes))
      else Literal ''0.0'')"

definition averageMagnitude :: "Earthquake list \<Rightarrow> shown" where
  "averageMagnitude filteredEarthquakes =
     (if length filteredEarthquakes > 0
      then ToFixed1 (fl_div (foldl (\<lambda>sum eq. fl_add sum (mag (properties eq))) (Fin 0) filteredEarthquakes)
                            (js_length filteredEarthquakes))
      else Literal ''0.0'')"

section \<open>fetchEarthquakeData\<close>

text \<open>
  What the network can answer to the one request: the promise of \<open>fetch\<close> rejects, or
  it resolves with a response that has its \<open>ok\<close> flag and status, and whose body either
  fails to parse as JSON or parses to a document.  Of the document only \<open>features\<close> is
  read: the list of earthquakes, or \<open>None\<close> when the document has no such member and
  the read gives \<open>undefined\<close>.
\<close>

datatype Body = NotJson | Json "Earthquake list option"

record Response =
  ok :: bool
  status :: nat
  body :: Body

datatype FetchOutcome = NetworkFailure | Resolved Response

datatype exn = TypeError | HttpError nat | SyntaxError

text \<open>
  The state cells of the component; a \<open>Date\<close> is held by its epoch milliseconds.  The
  two lists are declared as arrays; \<open>None\<close> is the value \<open>undefined\<close>, which
  \<open>setEarthquakes(data.features)\<close> stores when the document has no \<open>features\<close>.
\<close>

record VisualizerState =
  earthquakes :: "Earthquake list option"
  filteredEarthquakes :: "Earthquake list option"
  loading :: bool
  error :: "string option"
  lastUpdated :: "int option"
  magnitudeFilter :: "jsnum list"
  timeFilter :: string
  showFilters :: bool

text \<open>The statements of the \<open>try\<close> block after the two initial setters.\<close>

definition fetchTry :: "FetchOutcome \<Rightarrow> int \<Rightarrow> VisualizerState \<Rightarrow> exn + VisualizerState" where
  "fetchTry outcome newDate st =
     (case outcome of
        NetworkFailure \<Rightarrow> Inl TypeError
      | Resolved response \<Rightarrow>
          if \<not> ok response then Inl (HttpError (status response))
          else (case body response of
                  NotJson \<Rightarrow> Inl SyntaxError
                | Json features \<Rightarrow>
                    Inr (st\<lparr>earthquakes := features, lastUpdated := Some newDate\<rparr>)))"

definition fetchEarthquakeData :: "FetchOutcome \<Rightarrow> int \<Rightarrow> VisualizerState \<Rightarrow> VisualizerState" where
  "fetchEarthquakeData outcome newDate st =
     (let st1 = st\<lparr>loading := True, error := None\<rparr>;
          st2 = (case fetchTry outcome newDate st1 of
                   Inr s \<Rightarrow> s
                 | Inl err \<Rightarrow> st1\<lparr>error := Some ''Failed to load earthquake data. Please try again later.''\<rparr>)
      in st2\<lparr>loading := False\<rparr>)"

text \<open>
  The outcomes on which the request has failed: no response, a response that is not ok,
  a body that is not JSON, or a JSON body that is not a feed (no \<open>features\<close>).
\<close>

definition failed :: "FetchOutcome \<Rightarrow> bool" where
  "failed outcome =
     (case outcome of
        NetworkFailure \<Rightarrow> True
      | Resolved response \<Rightarrow>
          if ok response then body response = NotJson \<or> body response = Json None else True)"

text \<open>The outcomes on which a statement of the \<open>try\<close> block throws.\<close>

definition rejected :: "FetchOutcome \<Rightarrow> bool" where
  "rejected outcome =
     (case outcome of
        NetworkFailure \<Rightarrow> True
      | Resolved response \<Rightarrow> \<not> ok response \<or> body response = NotJson)"

text \<open>
  The filter effect on the state cells.  It calls \<open>earthquakes.filter\<close> when a filter is
  set; on \<open>undefined\<close> that call throws a TypeError, and with no filter set the effect
  stores \<open>undefined\<close> as the filtered list.
\<close>

definition filterEffect :: "VisualizerState \<Rightarrow> int \<Rightarrow> exn + VisualizerState" where
  "filterEffect st now =
     (case earthquakes st of
        Some es \<Rightarrow>
          Inr (st\<lparr>filteredEarthquakes :=
                    Some (filterEarthquakes es (magnitudeFilter st) (timeFilter st) now)\<rparr>)
      | None \<Rightarrow>
          if js_gt (magnitudeFilter0 (magnitudeFilter st)) (Fin 0) \<or> timeFilter st \<noteq> ''all''
          then Inl TypeError
          else Inr (st\<lparr>filteredEarthquakes := None\<rparr>))"

text \<open>
  The first statement of the render that reads the filtered list:
  \<open>filteredEarthquakes.filter(...)\<close>, which throws a TypeError on \<open>undefined\<close>.
\<close>

definition renderSignificant :: "VisualizerState \<Rightarrow> exn + Earthquake list" where
  "renderSignificant st =
     (case filteredEarthquakes st of
        None \<Rightarrow> Inl TypeError
      | Some fe \<Rightarrow> Inr (significantEarthquakes fe))"

section \<open>The marker effect of EarthquakeMap\<close>

text \<open>
  A circle marker as handed to the layer group: its position \<open>[lat, lng]\<close>, the two
  options that depend on the earthquake, and the values interpolated into its popup (the
  magnitude given to \<open>toFixed(1)\<close>, the place, the time given to \<open>new Date\<close>, and the
  absolute value of the depth).
\<close>

record Popup =
  popupMag :: jsnum
  popupPlace :: string
  popupTime :: jsnum
  popupDepth :: jsnum

record Marker =
  latlng :: "jsnum \<times> jsnum"
  radius :: nat
  fillColor :: string
  popup :: "Popup option"

fun js_abs :: "jsnum \<Rightarrow> jsnum" where
  "js_abs (Fin a) = Fin \<bar>a\<bar>"
| "js_abs PInf = PInf"
| "js_abs NInf = PInf"
| "js_abs NaN = NaN"

text \<open>
  The library call \<open>L.circleMarker\<close>.  Leaflet is loaded at run time and is not part of
  the repository; of its behaviour only this is used: it converts the position to a
  \<open>LatLng\<close>, whose constructor throws on a NaN coordinate.
\<close>

definition L_circleMarker :: "jsnum \<times> jsnum \<Rightarrow> nat \<Rightarrow> string \<Rightarrow> string + Marker" where
  "L_circleMarker pos r c =
     (if isNaN (fst pos) \<or> isNaN (snd pos) then Inl ''Invalid LatLng object''
      else Inr \<lparr>latlng = pos, radius = r, fillColor = c, popup = None\<rparr>)"

text \<open>The colour and radius chosen from the magnitude (the same text in both files).\<close>

definition markerStyle :: "jsnum \<Rightarrow> string \<times> nat" where
  "markerStyle magnitude =
     (let color = ''#22c55e''; radius = 5 in
      if js_ge magnitude (Fin 7) then (''#dc2626'', 15)
      else if js_ge magnitude (Fin 5) then (''#f97316'', 12)
      else if js_ge magnitude (Fin 3) then (''#eab308'', 9)
      else if js_ge magnitude (Fin 1) then (''#3b82f6'', 7)
      else (color, radius))"

text \<open>The check under the comment "Skip invalid coordinates".\<close>

definition skipInvalid :: "jsnum \<Rightarrow> jsnum \<Rightarrow> bool" where
  "skipInvalid lat lng = (\<not> truthy lat \<or> \<not> truthy lng \<or> isNaN lat \<or> isNaN lng)"

text \<open>The part of the callback after the check: build the marker and bind its popup.\<close>

definition buildMarker :: "Earthquake \<Rightarrow> string + Marker" where
  "buildMarker earthquake =
     (case coordinates (geometry earthquake) of (lng, lat, depth) \<Rightarrow>
        let magnitude = mag (properties earthquake);
            (color, radius) = markerStyle magnitude
        in (case L_circleMarker (lat, lng) radius color of
              Inl err \<Rightarrow> Inl err
            | Inr marker \<Rightarrow>
                Inr (marker\<lparr>popup := Some \<lparr>popupMag = magnitude,
                                            popupPlace = place (properties earthquake),
                                            popupTime = time (properties earthquake),
                                            popupDepth = js_abs depth\<rparr>\<rparr>)))"

text \<open>
  The callback of \<open>forEach\<close>: \<open>None\<close> when it returns at the check, otherwise the
  marker it adds to the layer group or the exception it throws.
\<close>

definition markerCallback :: "Earthquake \<Rightarrow> (string + Marker) option" where
  "markerCallback earthquake =
     (case coordinates (geometry earthquake) of (lng, lat, depth) \<Rightarrow>
        if skipInvalid lat lng then None else Some (buildMarker earthquake))"

text \<open>The callback of the file \<open>components/earthquake-map.tsx\<close>, which has no check.\<close>

definition markerCallback_components :: "Earthquake \<Rightarrow> (string + Marker) option" where
  "markerCallback_components earthquake = Some (buildMarker earthquake)"

text \<open>
  \<open>forEach\<close> over the earthquakes, with the layer group threaded through: the markers
  held by the group at the end, and the exception that ended the loop, if any.
\<close>

fun forEachMarker ::
  "(Earthquake \<Rightarrow> (string + Marker) option) \<Rightarrow> Earthquake list \<Rightarrow> Marker list \<Rightarrow> Marker list \<times> string option" where
  "forEachMarker callback [] layers = (layers, None)"
| "forEachMarker callback (earthquake # rest) layers =
     (case callback earthquake of
        None \<Rightarrow> forEachMarker callback rest layers
      | Some (Inl err) \<Rightarrow> (layers, Some err)
      | Some (Inr marker) \<Rightarrow> forEachMarker callback rest (layers @ [marker]))"

text \<open>
  The refs and state cells of the map component.  \<open>markersRef\<close> is \<open>None\<close> while the
  ref is null, and otherwise holds the markers of the layer group in the order they were
  added.
\<close>

record MapState =
  mapInstanceRef :: bool
  markersRef :: "Marker list option"
  leafletLoaded :: bool
  windowL :: bool
  mapError :: "string option"

definition truthyString :: "string option \<Rightarrow> bool" where
  "truthyString s = (case s of None \<Rightarrow> False | Some t \<Rightarrow> t \<noteq> [])"

definition notReady :: "MapState \<Rightarrow> bool \<Rightarrow> bool" where
  "notReady st loadingProp =
     (\<not> mapInstanceRef st \<or> markersRef st = None \<or> loadingProp \<or> \<not> leafletLoaded st
      \<or> \<not> windowL st \<or> truthyString (mapError st))"

text \<open>The marker effect, with its \<open>try\<close> and \<open>catch\<close>.\<close>

definition markerEffect :: "MapState \<Rightarrow> Earthquake list \<Rightarrow> bool \<Rightarrow> MapState" where
  "markerEffect st earthquakeList loadingProp =
     (if notReady st loadingProp then st
      else (case forEachMarker markerCallback earthquakeList [] of
              (layers, None) \<Rightarrow> st\<lparr>markersRef := Some layers\<rparr>
            | (layers, Some err) \<Rightarrow>
                st\<lparr>markersRef := Some layers, mapError := Some ''Error adding earthquake markers''\<rparr>))"

text \<open>
  The marker effect of \<open>components/earthquake-map.tsx\<close>: no \<open>mapError\<close> cell, no
  \<open>try\<close>; an exception leaves the effect, which is the second component of the result.
\<close>

definition markerEffect_components ::
  "MapState \<Rightarrow> Earthquake list \<Rightarrow> bool \<Rightarrow> MapState \<times> string option" where
  "markerEffect_components st earthquakeList loadingProp =
     (if \<not> mapInstanceRef st \<or> markersRef st = None \<or> loadingProp \<or> \<not> leafletLoaded st \<or> \<not> windowL st
      then (st, None)
      else (case forEachMarker markerCallback_components earthquakeList [] of
              (layers, thrown) \<Rightarrow> (st\<lparr>markersRef := Some layers\<rparr>, thrown)))"

section \<open>Reading an earthquake\<close>

abbreviation mag_of :: "Earthquake \<Rightarrow> jsnum" where
  "mag_of e \<equiv> mag (properties e)"

abbreviation lng_of :: "Earthquake \<Rightarrow> jsnum" where
  "lng_of e \<equiv> fst (coordinates (geometry e))"

abbreviation lat_of :: "Earthquake \<Rightarrow> jsnum" where
  "lat_of e \<equiv> fst (snd (coordinates (geometry e)))"

abbreviation depth_of :: "Earthquake \<Rightarrow> jsnum" where
  "depth_of e \<equiv> snd (snd (coordinates (geometry e)))"

text \<open>
  The marker that the callback builds for an earthquake once the check is passed, written
  out field by field.
\<close>

definition markerOf :: "Earthquake \<Rightarrow> Marker" where
  "markerOf e =
     \<lparr>latlng = (lat_of e, lng_of e),
      radius = snd (markerStyle (mag_of e)),
      fillColor = fst (markerStyle (mag_of e)),
      popup = Some \<lparr>popupMag = mag_of e, popupPlace = place (properties e),
                    popupTime = time (properties e), popupDepth = js_abs (depth_of e)\<rparr>\<rparr>"

section \<open>The projection of earthquakes to markers\<close>

text \<open>
  The markers that a callback builds for a list of earthquakes, in order: the sequence of
  marker descriptors that the layer group is to hold.
\<close>

definition project :: "(Earthquake \<Rightarrow> (string + Marker) option) \<Rightarrow> Earthquake list \<Rightarrow> Marker list" where
  "project callback es =
     List.map_filter (\<lambda>e. case callback e of Some (Inr marker) \<Rightarrow> Some marker | _ \<Rightarrow> None) es"

section \<open>Sample data\<close>

text \<open>Concrete earthquakes and states, on which the theorems below are instantiated.\<close>

definition quakeA :: Earthquake where
  "quakeA = \<lparr>id = ''a'', properties = \<lparr>mag = Fin 3, place = ''Test Zone'', time = Fin 1000, title = ''M 3.0''\<rparr>,
             geometry = \<lparr>coordinates = (Fin 10, Fin 20, Fin 5)\<rparr>\<rparr>"

definition quakeB :: Earthquake where
  "quakeB = \<lparr>id = ''b'', properties = \<lparr>mag = NaN, place = ''Nowhere'', time = Fin 2000, title = ''M ?''\<rparr>,
             geometry = \<lparr>coordinates = (Fin 30, NaN, Fin 1)\<rparr>\<rparr>"

definition quakeEquator :: Earthquake where
  "quakeEquator = \<lparr>id = ''eq'', properties = \<lparr>mag = Fin 8.1, place = ''Test Zone'', time = Fin 1000, title = ''M 8.1''\<rparr>,
             geometry = \<lparr>coordinates = (Fin 10, Fin 0, Fin 5)\<rparr>\<rparr>"

definition quakeInf :: Earthquake where
  "quakeInf = \<lparr>id = ''inf'', properties = \<lparr>mag = Fin 8.1, place = ''Test Zone'', time = Fin 1000, title = ''M 8.1''\<rparr>,
             geometry = \<lparr>coordinates = (Fin 10, PInf, Fin (-5))\<rparr>\<rparr>"

definition quakeMajor :: Earthquake where
  "quakeMajor = \<lparr>id = ''maj'', properties = \<lparr>mag = Fin 8.1, place = ''Test Zone'', time = Fin 1000, title = ''M 8.1''\<rparr>,
             geometry = \<lparr>coordinates = (Fin 10, Fin 20, Fin (-5))\<rparr>\<rparr>"

definition readyMap :: MapState where
  "readyMap = \<lparr>mapInstanceRef = True, markersRef = Some [], leafletLoaded = True, windowL = True, mapError = None\<rparr>"

definition staleState :: VisualizerState where
  "staleState = \<lparr>earthquakes = Some [quakeMajor], filteredEarthquakes = Some [quakeMajor], loading = False,
     error = None, lastUpdated = Some 1000, magnitudeFilter = [Fin 0], timeFilter = ''all'',
     showFilters = False\<rparr>"

definition quakeMag :: "string \<Rightarrow> real \<Rightarrow> Earthquake" where
  "quakeMag name m = \<lparr>id = name, properties = \<lparr>mag = Fin m, place = ''Test Zone'', time = Fin 1000, title = name\<rparr>,
             geometry = \<lparr>coordinates = (Fin 10, Fin 20, Fin 5)\<rparr>\<rparr>"

section \<open>Facts about the comparisons\<close>

lemma js_le_refl_iff: "js_le a a = (a \<noteq> NaN)"
  by (cases a) simp_all

lemma js_lt_imp_neq: "js_lt a b \<Longrightarrow> a \<noteq> b"
  by (cases a; cases b) simp_all

lemma js_lt_imp_le: "js_lt a b \<Longrightarrow> js_le a b"
  by (cases a; cases b) simp_all

lemma js_le_total: "a \<noteq> NaN \<Longrightarrow> b \<noteq> NaN \<Longrightarrow> \<not> js_lt a b \<Longrightarrow> js_le b a"
  by (cases a; cases b) simp_all

lemma js_le_trans: "js_le a b \<Longrightarrow> js_le b c \<Longrightarrow> js_le a c"
  by (cases a; cases b; cases c) simp_all

lemma js_gt_zero_iff: "js_ge m (Fin 0) \<Longrightarrow> js_gt m (Fin 0) = (\<not> js_eq m (Fin 0))"
  by (cases m) (auto simp: js_ge_def js_gt_def js_eq_def)

lemma timeThreshold_values:
  "timeThreshold ''1h'' = Fin 3600000"
  "timeThreshold ''6h'' = Fin 21600000"
  "timeThreshold ''12h'' = Fin 43200000"
  by (simp_all add: timeThreshold_def truthy_def)

lemma js_le_NaN_right: "js_le a NaN = False"
  by (cases a) simp_all

lemma filterEarthquakes_all:
  "filterEarthquakes es mf ''all'' now =
     (if js_gt (magnitudeFilter0 mf) (Fin 0)
      then filter (\<lambda>eq. js_ge (mag (properties eq)) (magnitudeFilter0 mf)) es else es)"
  by (simp add: filterEarthquakes_def)

lemma filterEarthquakes_staged:
  "tf \<noteq> ''all'' \<Longrightarrow> filterEarthquakes es mf tf now =
     filter (\<lambda>eq. js_le (js_sub (Fin (of_int now)) (time (properties eq))) (timeThreshold tf))
       (filterEarthquakes es mf ''all'' now)"
  by (simp add: filterEarthquakes_def)

section \<open>The filter effect\<close>

text \<open>
  Claim C1.  With a minimum magnitude \<open>m\<close> that is not below 0 (the slider's range),
  the filter keeps an earthquake if and only if \<open>m == 0\<close> or its magnitude is \<open>>= m\<close>:
  this is the whole result when the time window is "all", and under any time window the
  result is that of the time filter alone on the earthquakes so kept.  With \<open>m == 0\<close> the
  magnitude is not looked at, so earthquakes whose magnitude is NaN or absent stay; with
  \<open>m > 0\<close> no earthquake with such a magnitude is in the result.
\<close>

theorem magnitude_filter_keeps:
  assumes "js_ge m (Fin 0)"
  shows "filterEarthquakes es [m] ''all'' now =
           filter (\<lambda>e. js_eq m (Fin 0) \<or> js_ge (mag (properties e)) m) es
       \<and> filterEarthquakes es [m] tf now =
           filterEarthquakes (filter (\<lambda>e. js_eq m (Fin 0) \<or> js_ge (mag (properties e)) m) es) [Fin 0] tf now
       \<and> filterEarthquakes es [Fin 0] ''all'' now = es
       \<and> (js_gt m (Fin 0) \<longrightarrow>
            (\<forall>e \<in> set (filterEarthquakes es [m] tf now). mag (properties e) \<noteq> NaN))"
proof -
  have gt: "js_gt m (Fin 0) = (\<not> js_eq m (Fin 0))"
    using assms by (rule js_gt_zero_iff)
  have zero: "\<not> js_gt (Fin 0) (Fin 0)"
    by (simp add: js_gt_def)
  have a: "filterEarthquakes es [m] ''all'' now =
           filter (\<lambda>e. js_eq m (Fin 0) \<or> js_ge (mag (properties e)) m) es"
    by (simp add: filterEarthquakes_all magnitudeFilter0_def gt)
  have b: "filterEarthquakes es [m] tf now =
           filterEarthquakes (filter (\<lambda>e. js_eq m (Fin 0) \<or> js_ge (mag (properties e)) m) es) [Fin 0] tf now"
  proof (cases "tf = ''all''")
    case True
    then show ?thesis using a by (simp add: filterEarthquakes_all magnitudeFilter0_def zero)
  next
    case False
    then show ?thesis
      using a by (simp add: filterEarthquakes_staged filterEarthquakes_all magnitudeFilter0_def zero)
  qed
  have c: "filterEarthquakes es [Fin 0] ''all'' now = es"
    by (simp add: filterEarthquakes_all magnitudeFilter0_def zero)
  have d: "js_gt m (Fin 0) \<longrightarrow>
            (\<forall>e \<in> set (filterEarthquakes es [m] tf now). mag (properties e) \<noteq> NaN)"
    by (auto simp: filterEarthquakes_def magnitudeFilter0_def js_ge_def Let_def js_le_NaN_right
          split: if_splits)
  from a b c d show ?thesis by blast
qed

theorem magnitude_filter_keeps_witness:
  "js_ge (Fin 2.5) (Fin 0) \<and> js_gt (Fin 2.5) (Fin 0)
   \<and> filterEarthquakes [quakeA, quakeB] [Fin 2.5] ''all'' 0 = [quakeA]
   \<and> filterEarthquakes [quakeA, quakeB] [Fin 0] ''all'' 0 = [quakeA, quakeB]"
proof -
  have h: "js_ge (Fin 2.5) (Fin 0)" by (simp add: js_ge_def)
  show ?thesis
    using h magnitude_filter_keeps [OF h, of "[quakeA, quakeB]" 0 "''all''"]
    by (simp add: js_eq_def js_ge_def js_gt_def quakeA_def quakeB_def)
qed

text \<open>
  Claim C2.  With \<open>now\<close> read once, the time filter keeps, among the earthquakes that
  pass the magnitude filter, exactly those with \<open>now - time <= window\<close>, where the
  window is 3,600,000 ms for "1h", 21,600,000 ms for "6h" and 43,200,000 ms for "12h";
  "all" keeps every one of them.  The two filters are conjoined.  The bound is inclusive:
  an earthquake exactly one hour old is kept under "1h", one a millisecond older is not.
\<close>

theorem time_filter_keeps:
  "filterEarthquakes es mf ''1h'' now =
     filter (\<lambda>e. js_le (js_sub (Fin (of_int now)) (time (properties e))) (Fin 3600000))
       (filterEarthquakes es mf ''all'' now)
   \<and> filterEarthquakes es mf ''6h'' now =
     filter (\<lambda>e. js_le (js_sub (Fin (of_int now)) (time (properties e))) (Fin 21600000))
       (filterEarthquakes es mf ''all'' now)
   \<and> filterEarthquakes es mf ''12h'' now =
     filter (\<lambda>e. js_le (js_sub (Fin (of_int now)) (time (properties e))) (Fin 43200000))
       (filterEarthquakes es mf ''all'' now)
   \<and> filterEarthquakes es [Fin 0] ''all'' now = es
   \<and> filterEarthquakes es [m] ''1h'' now =
     filter (\<lambda>e. (if js_gt m (Fin 0) then js_ge (mag (properties e)) m else True)
                 \<and> js_le (js_sub (Fin (of_int now)) (time (properties e))) (Fin 3600000)) es
   \<and> filterEarthquakes [e\<lparr>properties := (properties e)\<lparr>time := Fin (of_int (now - 3600000))\<rparr>\<rparr>] [Fin 0] ''1h'' now
       = [e\<lparr>properties := (properties e)\<lparr>time := Fin (of_int (now - 3600000))\<rparr>\<rparr>]
   \<and> filterEarthquakes [e\<lparr>properties := (properties e)\<lparr>time := Fin (of_int (now - 3600001))\<rparr>\<rparr>] [Fin 0] ''1h'' now
       = []"
proof -
  have zero: "\<not> js_gt (Fin 0) (Fin 0)"
    by (simp add: js_gt_def)
  have s1: "filterEarthquakes es mf ''1h'' now =
     filter (\<lambda>e. js_le (js_sub (Fin (of_int now)) (time (properties e))) (Fin 3600000))
       (filterEarthquakes es mf ''all'' now)"
    by (simp add: filterEarthquakes_staged timeThreshold_values)
  have s6: "filterEarthquakes es mf ''6h'' now =
     filter (\<lambda>e. js_le (js_sub (Fin (of_int now)) (time (properties e))) (Fin 21600000))
       (filterEarthquakes es mf ''all'' now)"
    by (simp add: filterEarthquakes_staged timeThreshold_values)
  have s12: "filterEarthquakes es mf ''12h'' now =
     filter (\<lambda>e. js_le (js_sub (Fin (of_int now)) (time (properties e))) (Fin 43200000))
       (filterEarthquakes es mf ''all'' now)"
    by (simp add: filterEarthquakes_staged timeThreshold_values)
  have all: "filterEarthquakes es [Fin 0] ''all'' now = es"
    by (simp add: filterEarthquakes_all magnitudeFilter0_def zero)
  have conj: "filterEarthquakes es [m] ''1h'' now =
     filter (\<lambda>e. (if js_gt m (Fin 0) then js_ge (mag (properties e)) m else True)
                 \<and> js_le (js_sub (Fin (of_int now)) (time (properties e))) (Fin 3600000)) es"
    by (simp add: filterEarthquakes_staged filterEarthquakes_all timeThreshold_values
          magnitudeFilter0_def conj_commute)
  have inc: "filterEarthquakes [e\<lparr>properties := (properties e)\<lparr>time := Fin (of_int (now - 3600000))\<rparr>\<rparr>] [Fin 0] ''1h'' now
       = [e\<lparr>properties := (properties e)\<lparr>time := Fin (of_int (now - 3600000))\<rparr>\<rparr>]"
    by (simp add: filterEarthquakes_staged filterEarthquakes_all timeThreshold_values
          magnitudeFilter0_def zero js_sub_def)
  have exc: "filterEarthquakes [e\<lparr>properties := (properties e)\<lparr>time := Fin (of_int (now - 3600001))\<rparr>\<rparr>] [Fin 0] ''1h'' now
       = []"
    by (simp add: filterEarthquakes_staged filterEarthquakes_all timeThreshold_values
          magnitudeFilter0_def zero js_sub_def)
  from s1 s6 s12 all conj inc exc show ?thesis by blast
qed

text \<open>
  Claim C9.  With \<open>now\<close> fixed, filtering the filtered list again with the same
  parameters gives the same list; the filtered list is a subsequence of the input, and
  the ranking computed from the refiltered list is the same.  (The model is a function of
  the earthquakes, the two parameters and \<open>now\<close>, which are all that the effect reads.)
\<close>

theorem filter_idempotent:
  "filterEarthquakes (filterEarthquakes es mf tf now) mf tf now = filterEarthquakes es mf tf now
   \<and> subseq (filterEarthquakes es mf tf now) es
   \<and> significantEarthquakes (filterEarthquakes (filterEarthquakes es mf tf now) mf tf now)
       = significantEarthquakes (filterEarthquakes es mf tf now)"
proof -
  have idem: "filterEarthquakes (filterEarthquakes es mf tf now) mf tf now = filterEarthquakes es mf tf now"
    by (auto simp: filterEarthquakes_def Let_def intro: filter_cong)
  have sub: "subseq (filterEarthquakes es mf tf now) es"
    by (auto simp: filterEarthquakes_def Let_def intro: subseq_order.trans [OF subseq_filter_left subseq_filter_left])
  from idem sub show ?thesis by simp
qed

section \<open>Classification by magnitude\<close>

text \<open>
  Claim C4, amended.  The label, the badge colour and the marker's colour and radius are
  chosen by the first matching test, each lower bound inclusive: \<open>>= 7\<close> Major, red,
  15; \<open>>= 5\<close> Moderate, orange, 12; \<open>>= 3\<close> Light, yellow, 9; \<open>>= 1\<close> Minor, blue, 7;
  otherwise Micro, green, 5.  So 7.0 is Major/15, 6.99 and 5.0 are Moderate/12, 2.9 is
  Minor/7 and 0.99 is Micro/5.
\<close>

theorem classification_first_match:
  "(getMagnitudeLabel m, getMagnitudeColor m, markerStyle m) =
     (if js_ge m (Fin 7) then (''Major'', ''bg-destructive'', ''#dc2626'', 15)
      else if js_ge m (Fin 5) then (''Moderate'', ''bg-orange-500'', ''#f97316'', 12)
      else if js_ge m (Fin 3) then (''Light'', ''bg-yellow-500'', ''#eab308'', 9)
      else if js_ge m (Fin 1) then (''Minor'', ''bg-blue-500'', ''#3b82f6'', 7)
      else (''Micro'', ''bg-green-500'', ''#22c55e'', 5))
   \<and> (getMagnitudeLabel (Fin 7.0), markerStyle (Fin 7.0)) = (''Major'', ''#dc2626'', 15)
   \<and> (getMagnitudeLabel (Fin 6.99), markerStyle (Fin 6.99)) = (''Moderate'', ''#f97316'', 12)
   \<and> (getMagnitudeLabel (Fin 5.0), markerStyle (Fin 5.0)) = (''Moderate'', ''#f97316'', 12)
   \<and> (getMagnitudeLabel (Fin 2.9), markerStyle (Fin 2.9)) = (''Minor'', ''#3b82f6'', 7)
   \<and> (getMagnitudeLabel (Fin 0.99), markerStyle (Fin 0.99)) = (''Micro'', ''#22c55e'', 5)"
  by (simp add: getMagnitudeLabel_def getMagnitudeColor_def markerStyle_def js_ge_def)

text \<open>Claim C4 as stated has 2.9 classified Light with radius 9; it is not.\<close>

theorem classification_2_9_counterexample:
  "\<not> (getMagnitudeLabel (Fin 2.9) = ''Light'' \<and> snd (markerStyle (Fin 2.9)) = 9)"
  by (simp add: getMagnitudeLabel_def markerStyle_def js_ge_def)

section \<open>The ranking of significant earthquakes\<close>

lemma js_ge_not_NaN: "js_ge a b \<Longrightarrow> a \<noteq> NaN"
  by (auto simp: js_ge_def js_le_NaN_right)

lemma js_sub_pos_iff: "js_gt (js_sub b a) (Fin 0) = js_lt a b"
  by (cases a; cases b) (auto simp: js_gt_def js_sub_def)

lemma byMagDesc_pos_iff: "js_gt (byMagDesc x y) (Fin 0) = js_lt (mag_of x) (mag_of y)"
  by (simp add: byMagDesc_def js_sub_pos_iff)

lemma mset_insertBy: "mset (insertBy cmp x ys) = add_mset x (mset ys)"
  by (induction ys) simp_all

lemma mset_js_sort: "mset (js_sort cmp xs) = mset xs"
  by (induction xs) (simp_all add: mset_insertBy)

lemma set_insertBy: "set (insertBy cmp x ys) = insert x (set ys)"
  by (induction ys) auto

lemma set_js_sort: "set (js_sort cmp xs) = set xs"
  by (induction xs) (simp_all add: set_insertBy)

lemma sorted_insertBy:
  assumes "sorted_wrt (\<lambda>a b. js_ge (mag_of a) (mag_of b)) ys"
    and "mag_of x \<noteq> NaN" and "\<forall>y \<in> set ys. mag_of y \<noteq> NaN"
  shows "sorted_wrt (\<lambda>a b. js_ge (mag_of a) (mag_of b)) (insertBy byMagDesc x ys)"
  using assms
proof (induction ys)
  case Nil
  then show ?case by simp
next
  case (Cons y ys)
  show ?case
  proof (cases "js_lt (mag_of x) (mag_of y)")
    case True
    then have "js_ge (mag_of y) (mag_of x)"
      by (simp add: js_ge_def js_lt_imp_le)
    with True Cons show ?thesis
      by (auto simp: byMagDesc_pos_iff set_insertBy)
  next
    case False
    with Cons.prems have xy: "js_le (mag_of y) (mag_of x)"
      by (simp add: js_le_total)
    have "js_le (mag_of z) (mag_of x)" if "z \<in> set ys" for z
    proof -
      from Cons.prems that have "js_le (mag_of z) (mag_of y)"
        by (auto simp: js_ge_def)
      then show ?thesis using xy by (rule js_le_trans)
    qed
    with False xy Cons.prems show ?thesis
      by (auto simp: byMagDesc_pos_iff js_ge_def)
  qed
qed

lemma sorted_js_sort:
  "\<forall>x \<in> set xs. mag_of x \<noteq> NaN \<Longrightarrow>
   sorted_wrt (\<lambda>a b. js_ge (mag_of a) (mag_of b)) (js_sort byMagDesc xs)"
  by (induction xs) (simp_all add: sorted_insertBy set_js_sort)

lemma stable_insertBy:
  "filter (\<lambda>e. mag_of e = k) (insertBy byMagDesc x ys) = filter (\<lambda>e. mag_of e = k) (x # ys)"
proof (induction ys)
  case Nil
  show ?case by simp
next
  case (Cons y ys)
  show ?case
  proof (cases "js_lt (mag_of x) (mag_of y)")
    case True
    then have "mag_of x \<noteq> mag_of y" by (rule js_lt_imp_neq)
    with True Cons show ?thesis
      by (auto simp: byMagDesc_pos_iff)
  next
    case False
    then show ?thesis by (simp add: byMagDesc_pos_iff)
  qed
qed

lemma stable_js_sort:
  "filter (\<lambda>e. mag_of e = k) (js_sort byMagDesc xs) = filter (\<lambda>e. mag_of e = k) xs"
  by (induction xs) (simp_all add: stable_insertBy)

text \<open>
  Claim C3.  \<open>significantEarthquakes\<close> is the first five elements of a list that holds
  exactly the filtered earthquakes of magnitude \<open>>= 2.5\<close>, is in descending order of
  magnitude, and keeps earthquakes of equal magnitude in the order of the feed.  On
  magnitudes 2, 6, 3, 9 it yields the earthquakes of magnitudes 9, 6, 3.
\<close>

theorem significantEarthquakes_ranked:
  "significantEarthquakes fe =
     take 5 (js_sort byMagDesc (filter (\<lambda>e. js_ge (mag_of e) (Fin 2.5)) fe))
   \<and> mset (js_sort byMagDesc (filter (\<lambda>e. js_ge (mag_of e) (Fin 2.5)) fe))
       = mset (filter (\<lambda>e. js_ge (mag_of e) (Fin 2.5)) fe)
   \<and> sorted_wrt (\<lambda>a b. js_ge (mag_of a) (mag_of b))
       (js_sort byMagDesc (filter (\<lambda>e. js_ge (mag_of e) (Fin 2.5)) fe))
   \<and> (\<forall>k. filter (\<lambda>e. mag_of e = k) (js_sort byMagDesc (filter (\<lambda>e. js_ge (mag_of e) (Fin 2.5)) fe))
          = filter (\<lambda>e. mag_of e = k) (filter (\<lambda>e. js_ge (mag_of e) (Fin 2.5)) fe))
   \<and> length (significantEarthquakes fe) \<le> 5
   \<and> significantEarthquakes [quakeMag ''a'' 2, quakeMag ''b'' 6, quakeMag ''c'' 3, quakeMag ''d'' 9]
       = [quakeMag ''d'' 9, quakeMag ''b'' 6, quakeMag ''c'' 3]"
proof -
  have a: "significantEarthquakes fe =
     take 5 (js_sort byMagDesc (filter (\<lambda>e. js_ge (mag_of e) (Fin 2.5)) fe))"
    by (simp add: significantEarthquakes_def)
  have s: "sorted_wrt (\<lambda>a b. js_ge (mag_of a) (mag_of b))
       (js_sort byMagDesc (filter (\<lambda>e. js_ge (mag_of e) (Fin 2.5)) fe))"
    by (rule sorted_js_sort) (auto dest: js_ge_not_NaN)
  have l: "length (significantEarthquakes fe) \<le> 5"
    by (simp add: a)
  have m: "\<And>n r. mag_of (quakeMag n r) = Fin r"
    by (simp add: quakeMag_def)
  have ex: "significantEarthquakes [quakeMag ''a'' 2, quakeMag ''b'' 6, quakeMag ''c'' 3, quakeMag ''d'' 9]
       = [quakeMag ''d'' 9, quakeMag ''b'' 6, quakeMag ''c'' 3]"
    by (simp add: significantEarthquakes_def m js_ge_def byMagDesc_pos_iff)
  from a s l ex show ?thesis
    by (simp add: mset_js_sort stable_js_sort)
qed

section \<open>The summary cards\<close>

lemma js_le_NInf_right: "js_le a NInf \<Longrightarrow> a = NInf"
  by (cases a) simp_all

lemma js_max2_cases: "a \<noteq> NaN \<Longrightarrow> b \<noteq> NaN \<Longrightarrow>
  (js_max2 a b = a \<or> js_max2 a b = b) \<and> js_le a (js_max2 a b) \<and> js_le b (js_max2 a b)"
  by (auto simp: js_max2_def js_lt_imp_le js_le_total js_le_refl_iff)

lemma foldl_js_max2:
  assumes "acc \<noteq> NaN" and "\<forall>x \<in> set xs. x \<noteq> NaN"
  shows "foldl js_max2 acc xs \<in> set (acc # xs)
       \<and> (\<forall>x \<in> set (acc # xs). js_le x (foldl js_max2 acc xs))"
  using assms
proof (induction xs arbitrary: acc)
  case Nil
  then show ?case by (simp add: js_le_refl_iff)
next
  case (Cons x xs)
  have x: "x \<noteq> NaN" using Cons.prems by simp
  note step = js_max2_cases [OF Cons.prems(1) x]
  have acc': "js_max2 acc x \<noteq> NaN"
    using step Cons.prems(1) x by auto
  have ih: "foldl js_max2 (js_max2 acc x) xs \<in> set (js_max2 acc x # xs)
       \<and> (\<forall>y \<in> set (js_max2 acc x # xs). js_le y (foldl js_max2 (js_max2 acc x) xs))"
    using Cons.IH [OF acc'] Cons.prems by simp
  then have top: "js_le (js_max2 acc x) (foldl js_max2 (js_max2 acc x) xs)"
    by simp
  have "js_le acc (foldl js_max2 (js_max2 acc x) xs)"
    using step top by (blast intro: js_le_trans)
  moreover have "js_le x (foldl js_max2 (js_max2 acc x) xs)"
    using step top by (blast intro: js_le_trans)
  moreover have "foldl js_max2 (js_max2 acc x) xs \<in> set (acc # x # xs)"
    using ih step by auto
  ultimately show ?case using ih by simp
qed

lemma Math_max_greatest:
  assumes "xs \<noteq> []" and "\<forall>x \<in> set xs. x \<noteq> NaN"
  shows "Math_max xs \<in> set xs \<and> (\<forall>x \<in> set xs. js_le x (Math_max xs))"
proof -
  have f: "foldl js_max2 NInf xs \<in> set (NInf # xs)
       \<and> (\<forall>x \<in> set (NInf # xs). js_le x (foldl js_max2 NInf xs))"
    using assms(2) by (intro foldl_js_max2) simp_all
  have "foldl js_max2 NInf xs \<in> set xs"
  proof (cases "foldl js_max2 NInf xs = NInf")
    case True
    from assms(1) obtain x where x: "x \<in> set xs" by (cases xs) auto
    with f True have "js_le x NInf" by simp
    then have "x = NInf" by (rule js_le_NInf_right)
    with x True show ?thesis by simp
  next
    case False
    with f show ?thesis by auto
  qed
  with f show ?thesis by (simp add: Math_max_def)
qed

subsection \<open>Rounding\<close>

lemma round_even_of_int: "round_even (of_int m) = m"
  by (simp add: round_even_def)

lemma fl_exact:
  assumes "x / 2 powr of_int (ulp_exp x) = of_int m" and "\<bar>x\<bar> < 2 ^ 1024"
  shows "fl x = Fin x"
proof -
  have q: "2 powr of_int (ulp_exp x) \<noteq> (0::real)" by simp
  have v: "of_int (round_even (x / 2 powr of_int (ulp_exp x))) * 2 powr of_int (ulp_exp x) = x"
    using assms(1) q by (simp add: round_even_of_int del: of_int_eq_iff) (metis assms(1) nonzero_divide_eq_eq q)
  show ?thesis
    using assms(2) unfolding fl_def Let_def v by auto
qed

lemma ulp_exp_eq:
  assumes "2 powr of_int k \<le> \<bar>x\<bar>" and "\<bar>x\<bar> < 2 powr of_int (k + 1)" and "- 1022 \<le> k"
  shows "ulp_exp x = k - 52"
proof -
  have pos: "0 < \<bar>x\<bar>" using assms(1) by (smt (verit) powr_gt_zero)
  have "\<lfloor>log 2 \<bar>x\<bar>\<rfloor> = k"
    using pos assms(1,2) by (simp add: floor_log_eq_powr_iff)
  with pos assms(3) show ?thesis by (auto simp: ulp_exp_def)
qed

lemma fl_of_int:
  assumes "\<bar>n\<bar> < 2 ^ 53"
  shows "fl (of_int n) = Fin (of_int n)"
proof (cases "n = 0")
  case True
  have "fl 0 = Fin 0"
    by (rule fl_exact [where m = 0]) simp_all
  with True show ?thesis by simp
next
  case False
  define x :: real where "x = of_int n"
  define k where "k = \<lfloor>log 2 \<bar>x\<bar>\<rfloor>"
  have x1: "1 \<le> \<bar>x\<bar>" using False by (simp add: x_def)
  have x2: "\<bar>x\<bar> < 2 ^ 53"
  proof -
    have "real_of_int \<bar>n\<bar> < real_of_int (2 ^ 53)" using assms by (simp only: of_int_less_iff)
    then show ?thesis by (simp add: x_def)
  qed
  have k0: "0 \<le> k" using x1 by (simp add: k_def)
  have "log 2 \<bar>x\<bar> < 53"
    using x1 x2 by (simp add: log_less_iff powr_numeral)
  then have k52: "k \<le> 52" by (simp add: k_def floor_le_iff)
  have bounds: "2 powr of_int k \<le> \<bar>x\<bar> \<and> \<bar>x\<bar> < 2 powr of_int (k + 1)"
    using x1 floor_log_eq_powr_iff [of "\<bar>x\<bar>" 2 k] by (simp add: k_def)
  have ue: "ulp_exp x = k - 52"
    using bounds k0 by (intro ulp_exp_eq) simp_all
  define j where "j = nat (52 - k)"
  have kj: "k - 52 = - int j" using k52 by (simp add: j_def)
  have q: "2 powr of_int (ulp_exp x) = 1 / (2::real) ^ j"
    by (simp add: ue kj powr_minus powr_realpow field_simps)
  have "x / 2 powr of_int (ulp_exp x) = of_int (n * 2 ^ j)"
    unfolding q by (simp add: x_def)
  moreover have "\<bar>x\<bar> < 2 ^ 1024"
    using x2 by (rule less_trans) simp
  ultimately have "fl x = Fin x" by (rule fl_exact)
  then show ?thesis by (simp add: x_def)
qed


lemma fl_exact_at:
  assumes "2 powr of_int k \<le> \<bar>x\<bar>" and "\<bar>x\<bar> < 2 powr of_int (k + 1)" and "- 1022 \<le> k"
    and "x / 2 powr of_int (k - 52) = of_int m" and "\<bar>x\<bar> < 2 ^ 1024"
  shows "fl x = Fin x"
proof -
  have "ulp_exp x = k - 52"
    using assms(1,2,3) by (rule ulp_exp_eq)
  with assms(4) have "x / 2 powr of_int (ulp_exp x) = of_int m" by simp
  then show ?thesis using assms(5) by (rule fl_exact)
qed

lemma fl_small: "fl 1 = Fin 1" "fl 3 = Fin 3" "fl 4 = Fin 4" "fl 5 = Fin 5" "fl 8 = Fin 8"
  using fl_of_int [of 1] fl_of_int [of 3] fl_of_int [of 4] fl_of_int [of 5] fl_of_int [of 8]
  by simp_all

lemma fl_quarters: "fl (1 / 4) = Fin (1 / 4)" "fl (1 / 2) = Fin (1 / 2)" "fl (3 / 4) = Fin (3 / 4)"
proof -
  show "fl (1 / 4) = Fin (1 / 4)"
    by (rule fl_exact_at [where k = "- 2" and m = "2 ^ 52"])
       (simp_all add: powr_minus powr_numeral field_simps)
  show "fl (1 / 2) = Fin (1 / 2)"
    by (rule fl_exact_at [where k = "- 1" and m = "2 ^ 52"])
       (simp_all add: powr_minus powr_numeral field_simps)
  show "fl (3 / 4) = Fin (3 / 4)"
    by (rule fl_exact_at [where k = "- 1" and m = "3 * 2 ^ 51"])
       (simp_all add: powr_minus powr_numeral field_simps)
qed

lemma fl_three_twentieths: "fl (3 / 20) = Fin (5404319552844595 / 2 ^ 55)"
proof -
  have "ulp_exp (3 / 20) = - 3 - 52"
    by (rule ulp_exp_eq) (simp_all add: powr_minus powr_numeral field_simps)
  then have q: "2 powr of_int (ulp_exp (3 / 20)) = 1 / (2::real) ^ 55"
    by (simp add: powr_minus powr_numeral field_simps)
  have r: "round_even (3 / 20 / (1 / (2::real) ^ 55)) = 5404319552844595"
    by (simp add: round_even_def Let_def)
  show ?thesis
    unfolding fl_def Let_def q r by simp
qed

lemma fl_top: "fl (2 ^ 1023) = Fin (2 ^ 1023)"
  by (rule fl_exact_at [where k = 1023 and m = "2 ^ 52"])
     (simp_all add: powr_realpow [symmetric] powr_numeral)

lemma fl_overflow: "fl (2 ^ 1023 + 2 ^ 1023) = PInf"
proof -
  have x: "(2::real) ^ 1023 + 2 ^ 1023 = 2 ^ 1024" by simp
  have p: "(2::real) ^ 1024 = 2 powr of_int 1024"
    by (simp add: powr_realpow [symmetric])
  have "ulp_exp (2 ^ 1024) = 1024 - 52"
    by (rule ulp_exp_eq) (simp_all add: p)
  then have q: "2 powr of_int (ulp_exp (2 ^ 1024)) = (2::real) ^ 972"
    by (simp add: powr_realpow [symmetric])
  have d: "(2::real) ^ 1024 / 2 ^ 972 = of_int (2 ^ 52)"
    by simp
  have "round_even ((2::real) ^ 1024 / 2 ^ 972) = 2 ^ 52"
    unfolding d by (rule round_even_of_int)
  then show ?thesis
    unfolding x fl_def Let_def q by simp
qed

subsection \<open>The sum and the maximum\<close>

lemma fl_add_NaN_right: "fl_add a NaN = NaN"
  by (cases a) simp_all

lemma foldl_fl_add_NaN: "foldl (\<lambda>sum eq. fl_add sum (mag_of eq)) NaN fe = NaN"
  by (induction fe) simp_all

lemma foldl_fl_add_has_NaN:
  "\<exists>e \<in> set fe. mag_of e = NaN \<Longrightarrow> foldl (\<lambda>sum eq. fl_add sum (mag_of eq)) acc fe = NaN"
proof (induction fe arbitrary: acc)
  case Nil
  then show ?case by simp
next
  case (Cons e fe)
  show ?case
  proof (cases "mag_of e = NaN")
    case True
    then show ?thesis by (simp add: fl_add_NaN_right foldl_fl_add_NaN)
  next
    case False
    with Cons.prems have "\<exists>e \<in> set fe. mag_of e = NaN" by simp
    then show ?thesis by (simp add: Cons.IH)
  qed
qed

lemma js_max2_NaN_left: "js_max2 NaN x = NaN"
  by (simp add: js_max2_def)

lemma foldl_js_max2_NaN: "foldl js_max2 NaN xs = NaN"
  by (induction xs) (simp_all add: js_max2_NaN_left)

lemma foldl_js_max2_has_NaN: "NaN \<in> set xs \<Longrightarrow> foldl js_max2 acc xs = NaN"
proof (induction xs arbitrary: acc)
  case Nil
  then show ?case by simp
next
  case (Cons x xs)
  show ?case
  proof (cases "x = NaN")
    case True
    then have "js_max2 acc x = NaN" by (simp add: js_max2_def)
    then show ?thesis by (simp add: foldl_js_max2_NaN)
  next
    case False
    with Cons.prems have "NaN \<in> set xs" by simp
    then show ?thesis by (simp add: Cons.IH)
  qed
qed

lemma foldl_fl_add_exact:
  assumes "map mag_of fe = map Fin rs"
    and "\<forall>k \<le> length rs. fl (a + sum_list (take k rs)) = Fin (a + sum_list (take k rs))"
  shows "foldl (\<lambda>sum eq. fl_add sum (mag_of eq)) (Fin a) fe = Fin (a + sum_list rs)"
  using assms
proof (induction fe arbitrary: a rs)
  case Nil
  then show ?case by simp
next
  case (Cons e fe)
  then obtain r rs' where rs: "rs = r # rs'" "mag_of e = Fin r" "map mag_of fe = map Fin rs'"
    by (cases rs) auto
  have step: "fl (a + r) = Fin (a + r)"
    using Cons.prems(2) [rule_format, of 1] by (simp add: rs)
  have rest: "\<forall>k \<le> length rs'. fl (a + r + sum_list (take k rs')) = Fin (a + r + sum_list (take k rs'))"
  proof (intro allI impI)
    fix k assume "k \<le> length rs'"
    then show "fl (a + r + sum_list (take k rs')) = Fin (a + r + sum_list (take k rs'))"
      using Cons.prems(2) [rule_format, of "Suc k"] by (simp add: rs add.assoc)
  qed
  have "foldl (\<lambda>sum eq. fl_add sum (mag_of eq)) (Fin (a + r)) fe = Fin (a + r + sum_list rs')"
    using rs(3) rest by (rule Cons.IH)
  then show ?case by (simp add: rs step add.assoc)
qed

text \<open>
  Claim C5, amended.  Over the filtered list: the count is its length; the number of
  significant events is the number of its earthquakes of magnitude \<open>>= 2.5\<close>; the
  strongest event and the average show "0.0" on the empty list.  On a non-empty list
  without NaN the strongest event is a magnitude of the list that no magnitude of the
  list exceeds; with a NaN magnitude in the list both cards are NaN.  The average is the
  sum of the magnitudes, added from 0 in the order of the list, divided by their number,
  every addition and the division rounded to a double; when no step rounds it is the
  exact quotient, so 5 for the single magnitude 5 and 4 for the magnitudes 3 and 5.
\<close>

theorem summary_aggregates:
  "totalEarthquakes fe = length fe
   \<and> significantEvents fe = length (filter (\<lambda>e. js_ge (mag_of e) (Fin 2.5)) fe)
   \<and> strongestEvent [] = Literal ''0.0''
   \<and> averageMagnitude [] = Literal ''0.0''
   \<and> (fe \<noteq> [] \<and> (\<forall>e \<in> set fe. mag_of e \<noteq> NaN) \<longrightarrow>
        strongestEvent fe = ToFixed1 (Math_max (map mag_of fe))
        \<and> Math_max (map mag_of fe) \<in> mag_of ` set fe
        \<and> (\<forall>e \<in> set fe. js_le (mag_of e) (Math_max (map mag_of fe))))
   \<and> ((\<exists>e \<in> set fe. mag_of e = NaN) \<longrightarrow>
        strongestEvent fe = ToFixed1 NaN \<and> averageMagnitude fe = ToFixed1 NaN)
   \<and> (fe \<noteq> [] \<longrightarrow>
        averageMagnitude fe =
          ToFixed1 (fl_div (foldl (\<lambda>sum e. fl_add sum (mag_of e)) (Fin 0) fe)
                           (Fin (real (length fe)))))
   \<and> (fe \<noteq> [] \<and> map mag_of fe = map Fin rs
        \<and> (\<forall>k \<le> length rs. fl (sum_list (take k rs)) = Fin (sum_list (take k rs)))
        \<and> fl (sum_list rs / real (length fe)) = Fin (sum_list rs / real (length fe)) \<longrightarrow>
        averageMagnitude fe = ToFixed1 (Fin (sum_list rs / real (length fe))))
   \<and> averageMagnitude [quakeMag ''a'' 5] = ToFixed1 (Fin 5)
   \<and> averageMagnitude [quakeMag ''a'' 3, quakeMag ''b'' 5] = ToFixed1 (Fin 4)"
proof -
  have mx: "strongestEvent fe = ToFixed1 (Math_max (map mag_of fe))
        \<and> Math_max (map mag_of fe) \<in> mag_of ` set fe
        \<and> (\<forall>e \<in> set fe. js_le (mag_of e) (Math_max (map mag_of fe)))"
    if "fe \<noteq> []" and "\<forall>e \<in> set fe. mag_of e \<noteq> NaN"
  proof -
    have "Math_max (map mag_of fe) \<in> set (map mag_of fe)
       \<and> (\<forall>x \<in> set (map mag_of fe). js_le x (Math_max (map mag_of fe)))"
      using that by (intro Math_max_greatest) simp_all
    with that(1) show ?thesis by (simp add: strongestEvent_def)
  qed
  have nan: "strongestEvent fe = ToFixed1 NaN \<and> averageMagnitude fe = ToFixed1 NaN"
    if "\<exists>e \<in> set fe. mag_of e = NaN"
  proof -
    from that have ne: "fe \<noteq> []" by auto
    from that have "NaN \<in> set (map mag_of fe)" by force
    then have "Math_max (map mag_of fe) = NaN"
      by (simp only: Math_max_def foldl_js_max2_has_NaN)
    moreover have "foldl (\<lambda>sum eq. fl_add sum (mag_of eq)) (Fin 0) fe = NaN"
      using that by (rule foldl_fl_add_has_NaN)
    ultimately show ?thesis
      using ne by (simp add: strongestEvent_def averageMagnitude_def)
  qed
  have def: "averageMagnitude fe =
          ToFixed1 (fl_div (foldl (\<lambda>sum e. fl_add sum (mag_of e)) (Fin 0) fe)
                           (Fin (real (length fe))))"
    if "fe \<noteq> []" for fe :: "Earthquake list"
    using that by (simp add: averageMagnitude_def js_length_def)
  have mean: "averageMagnitude fe = ToFixed1 (Fin (sum_list rs / real (length fe)))"
    if "fe \<noteq> []" and "map mag_of fe = map Fin rs"
      and "\<forall>k \<le> length rs. fl (sum_list (take k rs)) = Fin (sum_list (take k rs))"
      and "fl (sum_list rs / real (length fe)) = Fin (sum_list rs / real (length fe))"
  proof -
    have "foldl (\<lambda>sum eq. fl_add sum (mag_of eq)) (Fin 0) fe = Fin (0 + sum_list rs)"
      using that(2,3) by (intro foldl_fl_add_exact) simp_all
    with that(1,4) show ?thesis by (simp add: def)
  qed
  have m: "\<And>n r. mag_of (quakeMag n r) = Fin r"
    by (simp add: quakeMag_def)
  have e1: "averageMagnitude [quakeMag ''a'' 5] = ToFixed1 (Fin 5)"
    by (simp add: def m fl_small)
  have e2: "averageMagnitude [quakeMag ''a'' 3, quakeMag ''b'' 5] = ToFixed1 (Fin 4)"
    by (simp add: def m fl_small)
  have basics: "totalEarthquakes fe = length fe
   \<and> significantEvents fe = length (filter (\<lambda>e. js_ge (mag_of e) (Fin 2.5)) fe)
   \<and> strongestEvent [] = Literal ''0.0''
   \<and> averageMagnitude [] = Literal ''0.0''"
    by (simp add: totalEarthquakes_def significantEvents_def strongestEvent_def averageMagnitude_def)
  from basics mx nan def [of fe] mean e1 e2 show ?thesis by blast
qed

theorem summary_aggregates_witness:
  "[quakeMag ''a'' 3, quakeMag ''b'' 5] \<noteq> []
   \<and> mag_of (quakeMag ''a'' 3) \<noteq> NaN \<and> mag_of (quakeMag ''b'' 5) \<noteq> NaN
   \<and> map mag_of [quakeMag ''a'' 3, quakeMag ''b'' 5] = map Fin [3, 5]
   \<and> fl 0 = Fin 0 \<and> fl 3 = Fin 3 \<and> fl 8 = Fin 8 \<and> fl (8 / 2) = Fin (8 / 2)
   \<and> strongestEvent [quakeMag ''a'' 3, quakeMag ''b'' 5] = ToFixed1 (Fin 5)
   \<and> averageMagnitude [quakeMag ''a'' 3, quakeMag ''b'' 5] = ToFixed1 (Fin 4)
   \<and> totalEarthquakes [quakeMag ''a'' 3, quakeMag ''b'' 5] = 2
   \<and> significantEvents [quakeMag ''a'' 3, quakeMag ''b'' 5] = 2
   \<and> mag_of quakeB = NaN
   \<and> strongestEvent [quakeMag ''a'' 3, quakeB] = ToFixed1 NaN
   \<and> averageMagnitude [quakeMag ''a'' 3, quakeB] = ToFixed1 NaN"
proof -
  have m: "\<And>n r. mag_of (quakeMag n r) = Fin r"
    by (simp add: quakeMag_def)
  have b: "mag_of quakeB = NaN"
    by (simp add: quakeB_def)
  have mx: "Math_max [Fin 3, Fin 5] = Fin 5"
    by (simp add: Math_max_def js_max2_def)
  have z: "fl 0 = Fin 0"
    using fl_of_int [of 0] by simp
  show ?thesis
    using summary_aggregates [of "[quakeMag ''a'' 3, quakeMag ''b'' 5]" "[3, 5]"]
      summary_aggregates [of "[quakeMag ''a'' 3, quakeB]" "[]"]
    by (simp add: m b mx z fl_small js_ge_def)
qed

text \<open>
  Claim C5 as stated has the strongest event be the maximum on every filtered list.  With
  no filter set, an earthquake whose magnitude is NaN stays in the list, and the card is
  then NaN, which is not at or above the magnitude 3 of the same list.
\<close>

theorem strongest_nan_counterexample:
  "filterEarthquakes [quakeMag ''a'' 3, quakeB] [Fin 0] ''all'' 0 = [quakeMag ''a'' 3, quakeB]
   \<and> strongestEvent [quakeMag ''a'' 3, quakeB] = ToFixed1 NaN
   \<and> \<not> js_le (mag_of (quakeMag ''a'' 3)) NaN"
  by (simp add: filterEarthquakes_def magnitudeFilter0_def js_gt_def strongestEvent_def
      Math_max_def js_max2_def quakeMag_def quakeB_def)

text \<open>
  The average rounds and overflows as the doubles do: 0.75 / 5 is not a double, and the
  sum of two magnitudes \<open>2^1023\<close> is an infinity.
\<close>

lemma averageMagnitude_rounds:
  "averageMagnitude [quakeMag ''a'' (1 / 4), quakeMag ''b'' (1 / 4), quakeMag ''c'' (1 / 4),
                     quakeMag ''d'' 0, quakeMag ''e'' 0]
     = ToFixed1 (Fin (5404319552844595 / 2 ^ 55))"
proof -
  have m: "\<And>n r. mag_of (quakeMag n r) = Fin r"
    by (simp add: quakeMag_def)
  have q: "(3 / 4 / 5 :: real) = 3 / 20" by simp
  show ?thesis
    by (simp add: averageMagnitude_def js_length_def m fl_quarters fl_three_twentieths q)
qed

lemma averageMagnitude_overflows:
  "averageMagnitude [quakeMag ''a'' (2 ^ 1023), quakeMag ''b'' (2 ^ 1023)] = ToFixed1 PInf"
proof -
  have m: "\<And>n r. mag_of (quakeMag n r) = Fin r"
    by (simp add: quakeMag_def)
  have s: "fl_add (fl_add (Fin 0) (Fin (2 ^ 1023))) (Fin (2 ^ 1023)) = PInf"
    by (simp only: fl_add.simps add_0 fl_top fl_overflow)
  show ?thesis
    by (simp only: averageMagnitude_def js_length_def m foldl.simps s list.size) simp
qed

section \<open>Fetching\<close>

text \<open>
  When a statement of the \<open>try\<close> block throws (no response, a response that is not
  ok, a body that is not JSON), the \<open>catch\<close> sets the error message, and the
  earthquakes and the time of the last update stay as they were.  A body that parses is
  stored as it is, whether it has \<open>features\<close> or not.
\<close>

lemma fetch_rejected_caught:
  assumes "rejected outcome"
  shows "error (fetchEarthquakeData outcome newDate st)
           = Some ''Failed to load earthquake data. Please try again later.''
       \<and> earthquakes (fetchEarthquakeData outcome newDate st) = earthquakes st
       \<and> lastUpdated (fetchEarthquakeData outcome newDate st) = lastUpdated st"
  using assms
  by (auto simp: rejected_def fetchEarthquakeData_def fetchTry_def Let_def
      split: FetchOutcome.splits Body.splits)

lemma fetch_parsed:
  "fetchEarthquakeData (Resolved \<lparr>ok = True, status = code, body = Json features\<rparr>) newDate st
     = st\<lparr>earthquakes := features, loading := False, error := None, lastUpdated := Some newDate\<rparr>"
  by (simp add: fetchEarthquakeData_def fetchTry_def Let_def)

text \<open>
  Claim C8.  A failed request, a malformed body included, is to end with an error message
  set, with the earthquakes and the time of the last update as they were, and with
  nothing thrown into the render.  On a response that is ok and whose body is the JSON
  document \<open>{}\<close> the code does none of this: no error is set, the earthquakes become
  \<open>undefined\<close>, the time of the last update is set, the filter effect stores
  \<open>undefined\<close> as the filtered list, and the render throws a TypeError.
\<close>

theorem fetch_missing_features_unhandled:
  "failed (Resolved \<lparr>ok = True, status = 200, body = Json None\<rparr>)
   \<and> fetchEarthquakeData (Resolved \<lparr>ok = True, status = 200, body = Json None\<rparr>) 2000 staleState
       = staleState\<lparr>earthquakes := None, lastUpdated := Some 2000\<rparr>
   \<and> error (fetchEarthquakeData (Resolved \<lparr>ok = True, status = 200, body = Json None\<rparr>) 2000 staleState)
       = None
   \<and> filterEffect (staleState\<lparr>earthquakes := None, lastUpdated := Some 2000\<rparr>) 3000
       = Inr (staleState\<lparr>earthquakes := None, filteredEarthquakes := None, lastUpdated := Some 2000\<rparr>)
   \<and> renderSignificant
        (staleState\<lparr>earthquakes := None, filteredEarthquakes := None, lastUpdated := Some 2000\<rparr>)
       = Inl TypeError"
  by (simp add: failed_def fetch_parsed filterEffect_def renderSignificant_def staleState_def
      magnitudeFilter0_def js_gt_def)

section \<open>The marker effect\<close>

lemma markerCallback_never_throws: "markerCallback e \<noteq> Some (Inl err)"
  by (auto simp: markerCallback_def buildMarker_def L_circleMarker_def skipInvalid_def Let_def
      split: prod.splits if_splits sum.splits)

lemma buildMarker_eq:
  "buildMarker e = (if isNaN (lat_of e) \<or> isNaN (lng_of e) then Inl ''Invalid LatLng object''
                    else Inr (markerOf e))"
  by (auto simp: buildMarker_def L_circleMarker_def markerOf_def Let_def split: prod.splits)

lemma markerCallback_eq:
  "markerCallback e = (if skipInvalid (lat_of e) (lng_of e) then None else Some (Inr (markerOf e)))"
  by (auto simp: markerCallback_def buildMarker_eq skipInvalid_def split: prod.splits)

lemma project_Nil: "project callback [] = []"
  by (simp add: project_def)

lemma project_Cons:
  "project callback (e # es) =
     (case callback e of Some (Inr marker) \<Rightarrow> [marker] | _ \<Rightarrow> []) @ project callback es"
  by (simp add: project_def split: option.splits sum.splits)

lemma forEachMarker_project:
  "(\<And>e err. e \<in> set es \<Longrightarrow> callback e \<noteq> Some (Inl err)) \<Longrightarrow>
   forEachMarker callback es layers = (layers @ project callback es, None)"
proof (induction es arbitrary: layers)
  case Nil
  then show ?case by (simp add: project_Nil)
next
  case (Cons e es)
  have rest: "\<And>ls. forEachMarker callback es ls = (ls @ project callback es, None)"
    using Cons by simp
  show ?case
  proof (cases "callback e")
    case None
    then show ?thesis by (simp add: rest project_Cons)
  next
    case (Some r)
    show ?thesis
    proof (cases r)
      case (Inl err)
      with Some Cons.prems [of e err] show ?thesis by simp
    next
      case (Inr marker)
      with Some show ?thesis by (simp add: rest project_Cons)
    qed
  qed
qed

lemma forEachMarker_markerCallback:
  "forEachMarker markerCallback es layers = (layers @ project markerCallback es, None)"
  by (rule forEachMarker_project) (rule markerCallback_never_throws)

lemma markerEffect_eq:
  "markerEffect st es lp =
     (if notReady st lp then st else st\<lparr>markersRef := Some (project markerCallback es)\<rparr>)"
  by (simp add: markerEffect_def forEachMarker_markerCallback)

lemma project_markerCallback:
  "project markerCallback es = map markerOf (filter (\<lambda>e. \<not> skipInvalid (lat_of e) (lng_of e)) es)"
  by (induction es) (simp_all add: project_Nil project_Cons markerCallback_eq)

lemma project_components:
  "(\<And>e. e \<in> set es \<Longrightarrow> \<not> isNaN (lat_of e) \<and> \<not> isNaN (lng_of e)) \<Longrightarrow>
   project markerCallback_components es = map markerOf es"
  by (induction es) (simp_all add: project_Nil project_Cons markerCallback_components_def buildMarker_eq)

lemma notReady_update:
  "notReady (st\<lparr>markersRef := Some previous\<rparr>) False =
     (\<not> mapInstanceRef st \<or> \<not> leafletLoaded st \<or> \<not> windowL st \<or> truthyString (mapError st))"
  by (simp add: notReady_def)

text \<open>
  Claim C7.  When the map is ready (instance and Leaflet present, not loading, no map
  error), the effect replaces whatever the layer group held before by the markers of the
  earthquakes: one marker for each earthquake that passes the coordinate check, in the
  order of the list.  The effect of \<open>components/earthquake-map.tsx\<close> does the same with
  one marker for every earthquake, as long as no coordinate is NaN.
\<close>

theorem reconcile_full_replace:
  assumes "mapInstanceRef st" and "leafletLoaded st" and "windowL st"
    and "\<not> truthyString (mapError st)"
  shows "markerEffect (st\<lparr>markersRef := Some previous\<rparr>) es False
           = st\<lparr>markersRef := Some (project markerCallback es)\<rparr>
       \<and> project markerCallback es
           = map markerOf (filter (\<lambda>e. \<not> skipInvalid (lat_of e) (lng_of e)) es)
       \<and> ((\<forall>e \<in> set es. \<not> isNaN (lat_of e) \<and> \<not> isNaN (lng_of e)) \<longrightarrow>
            markerEffect_components (st\<lparr>markersRef := Some previous\<rparr>) es False
              = (st\<lparr>markersRef := Some (map markerOf es)\<rparr>, None))"
proof -
  have ready: "\<not> notReady (st\<lparr>markersRef := Some previous\<rparr>) False"
    using assms by (simp add: notReady_update)
  have a: "markerEffect (st\<lparr>markersRef := Some previous\<rparr>) es False
           = st\<lparr>markersRef := Some (project markerCallback es)\<rparr>"
    using ready by (simp add: markerEffect_eq)
  have c: "markerEffect_components (st\<lparr>markersRef := Some previous\<rparr>) es False
              = (st\<lparr>markersRef := Some (map markerOf es)\<rparr>, None)"
    if ok: "\<forall>e \<in> set es. \<not> isNaN (lat_of e) \<and> \<not> isNaN (lng_of e)"
  proof -
    have nothrow: "\<And>e err. e \<in> set es \<Longrightarrow> markerCallback_components e \<noteq> Some (Inl err)"
      using ok by (simp add: markerCallback_components_def buildMarker_eq)
    have "forEachMarker markerCallback_components es [] = ([] @ project markerCallback_components es, None)"
      using nothrow by (rule forEachMarker_project)
    moreover have "project markerCallback_components es = map markerOf es"
      using ok by (simp add: project_components)
    ultimately show ?thesis
      using assms by (simp add: markerEffect_components_def)
  qed
  from a c show ?thesis by (simp add: project_markerCallback)
qed

theorem reconcile_full_replace_witness:
  "mapInstanceRef readyMap \<and> leafletLoaded readyMap \<and> windowL readyMap
   \<and> \<not> truthyString (mapError readyMap)
   \<and> \<not> isNaN (lat_of quakeMajor) \<and> \<not> isNaN (lng_of quakeMajor)
   \<and> \<not> isNaN (lat_of quakeA) \<and> \<not> isNaN (lng_of quakeA)
   \<and> markersRef (markerEffect (readyMap\<lparr>markersRef := Some [markerOf quakeA]\<rparr>) [quakeMajor, quakeB, quakeA] False)
       = Some [markerOf quakeMajor, markerOf quakeA]
   \<and> markerEffect_components (readyMap\<lparr>markersRef := Some [markerOf quakeA]\<rparr>) [quakeMajor, quakeA] False
       = (readyMap\<lparr>markersRef := Some [markerOf quakeMajor, markerOf quakeA]\<rparr>, None)"
proof -
  have h: "mapInstanceRef readyMap" "leafletLoaded readyMap" "windowL readyMap"
    "\<not> truthyString (mapError readyMap)"
    by (simp_all add: readyMap_def truthyString_def)
  have ok: "\<forall>e \<in> set [quakeMajor, quakeA]. \<not> isNaN (lat_of e) \<and> \<not> isNaN (lng_of e)"
    by (simp add: quakeMajor_def quakeA_def isNaN_def)
  have skip: "\<not> skipInvalid (lat_of quakeMajor) (lng_of quakeMajor)"
    "skipInvalid (lat_of quakeB) (lng_of quakeB)"
    "\<not> skipInvalid (lat_of quakeA) (lng_of quakeA)"
    by (simp_all add: skipInvalid_def truthy_def isNaN_def quakeMajor_def quakeB_def quakeA_def)
  show ?thesis
    using h ok skip
      reconcile_full_replace [OF h, of "[markerOf quakeA]" "[quakeMajor, quakeB, quakeA]"]
      reconcile_full_replace [OF h, of "[markerOf quakeA]" "[quakeMajor, quakeA]"]
    by simp
qed

lemma project_filter:
  "(\<And>e. e \<in> set es \<Longrightarrow> \<not> P e \<Longrightarrow> cb e = None) \<Longrightarrow> project cb (filter P es) = project cb es"
proof (induction es)
  case Nil
  show ?case by simp
next
  case (Cons e es)
  have rest: "project cb (filter P es) = project cb es"
    using Cons by simp
  show ?case
  proof (cases "P e")
    case True
    with rest show ?thesis by (simp add: project_Cons)
  next
    case False
    with Cons.prems [of e] have "cb e = None" by simp
    with False rest show ?thesis by (simp add: project_Cons)
  qed
qed

text \<open>
  Claim C10.  An earthquake whose latitude is 0 or whose longitude is 0 gets no marker:
  the callback returns at the check, the effect gives the same result as on the list
  without such earthquakes, and an earthquake on the equator alone leaves the layer empty.
\<close>

theorem zero_coordinate_excluded:
  "markerCallback (e\<lparr>geometry := \<lparr>coordinates = (lng, Fin 0, depth)\<rparr>\<rparr>) = None
   \<and> markerCallback (e\<lparr>geometry := \<lparr>coordinates = (Fin 0, lat, depth)\<rparr>\<rparr>) = None
   \<and> markerEffect st es lp
       = markerEffect st (filter (\<lambda>e. lat_of e \<noteq> Fin 0 \<and> lng_of e \<noteq> Fin 0) es) lp
   \<and> markersRef (markerEffect readyMap [quakeEquator] False) = Some []"
proof -
  have a: "markerCallback (e\<lparr>geometry := \<lparr>coordinates = (lng, Fin 0, depth)\<rparr>\<rparr>) = None"
    by (simp add: markerCallback_eq skipInvalid_def truthy_def)
  have b: "markerCallback (e\<lparr>geometry := \<lparr>coordinates = (Fin 0, lat, depth)\<rparr>\<rparr>) = None"
    by (simp add: markerCallback_eq skipInvalid_def truthy_def)
  have "project markerCallback (filter (\<lambda>e. lat_of e \<noteq> Fin 0 \<and> lng_of e \<noteq> Fin 0) es)
          = project markerCallback es"
    by (rule project_filter) (auto simp: markerCallback_eq skipInvalid_def truthy_def)
  then have c: "markerEffect st es lp
       = markerEffect st (filter (\<lambda>e. lat_of e \<noteq> Fin 0 \<and> lng_of e \<noteq> Fin 0) es) lp"
    by (simp add: markerEffect_eq)
  have d: "markersRef (markerEffect readyMap [quakeEquator] False) = Some []"
    by (simp add: markerEffect_eq notReady_def readyMap_def truthyString_def project_markerCallback
        skipInvalid_def truthy_def quakeEquator_def)
  from a b c d show ?thesis by blast
qed

text \<open>
  Claim C6, amended.  In the marker effect that has the coordinate check (the one with
  the \<open>mapError\<close> cell): an earthquake whose latitude or longitude is NaN (or absent)
  gets no marker, whatever list the effect is given, and the effect never sets the map
  error; an earthquake whose two coordinates are finite and not 0 gets its marker.
\<close>

theorem nan_coordinate_excluded:
  "mapError (markerEffect st es lp) = mapError st
   \<and> markerCallback (e\<lparr>geometry := \<lparr>coordinates = (lng, NaN, depth)\<rparr>\<rparr>) = None
   \<and> markerCallback (e\<lparr>geometry := \<lparr>coordinates = (NaN, lat, depth)\<rparr>\<rparr>) = None
   \<and> markerEffect st es lp
       = markerEffect st (filter (\<lambda>e. lat_of e \<noteq> NaN \<and> lng_of e \<noteq> NaN) es) lp
   \<and> (a \<noteq> 0 \<and> b \<noteq> 0 \<longrightarrow>
        markerCallback (e\<lparr>geometry := \<lparr>coordinates = (Fin b, Fin a, depth)\<rparr>\<rparr>)
          = Some (Inr (markerOf (e\<lparr>geometry := \<lparr>coordinates = (Fin b, Fin a, depth)\<rparr>\<rparr>))))"
proof -
  have s: "mapError (markerEffect st es lp) = mapError st"
    by (simp add: markerEffect_eq)
  have a: "markerCallback (e\<lparr>geometry := \<lparr>coordinates = (lng, NaN, depth)\<rparr>\<rparr>) = None"
    by (simp add: markerCallback_eq skipInvalid_def truthy_def)
  have b: "markerCallback (e\<lparr>geometry := \<lparr>coordinates = (NaN, lat, depth)\<rparr>\<rparr>) = None"
    by (simp add: markerCallback_eq skipInvalid_def truthy_def)
  have "project markerCallback (filter (\<lambda>e. lat_of e \<noteq> NaN \<and> lng_of e \<noteq> NaN) es)
          = project markerCallback es"
    by (rule project_filter) (auto simp: markerCallback_eq skipInvalid_def truthy_def)
  then have c: "markerEffect st es lp
       = markerEffect st (filter (\<lambda>e. lat_of e \<noteq> NaN \<and> lng_of e \<noteq> NaN) es) lp"
    by (simp add: markerEffect_eq)
  have d: "a \<noteq> 0 \<and> b \<noteq> 0 \<longrightarrow>
        markerCallback (e\<lparr>geometry := \<lparr>coordinates = (Fin b, Fin a, depth)\<rparr>\<rparr>)
          = Some (Inr (markerOf (e\<lparr>geometry := \<lparr>coordinates = (Fin b, Fin a, depth)\<rparr>\<rparr>)))"
    by (simp add: markerCallback_eq skipInvalid_def truthy_def isNaN_def)
  from s a b c d show ?thesis by blast
qed

theorem nan_coordinate_excluded_witness:
  "(20::real) \<noteq> 0 \<and> (10::real) \<noteq> 0
   \<and> markerCallback quakeMajor = Some (Inr (markerOf quakeMajor))
   \<and> markerCallback quakeB = None"
  using nan_coordinate_excluded [where e = quakeMajor and a = 20 and b = 10 and depth = "Fin (-5)"]
    nan_coordinate_excluded [where e = quakeB and lng = "Fin 30" and depth = "Fin 1"]
  by (simp add: quakeMajor_def quakeB_def)

text \<open>
  Claim C6 as stated excludes infinite coordinates; an earthquake with an infinite
  latitude is given a marker.
\<close>

theorem infinite_coordinate_counterexample:
  "markersRef (markerEffect readyMap [quakeInf] False)
     = Some [\<lparr>latlng = (PInf, Fin 10), radius = 15, fillColor = ''#dc2626'',
              popup = Some \<lparr>popupMag = Fin 8.1, popupPlace = ''Test Zone'',
                            popupTime = Fin 1000, popupDepth = Fin 5\<rparr>\<rparr>]"
  by (simp add: markerEffect_eq notReady_def readyMap_def truthyString_def project_markerCallback
      skipInvalid_def truthy_def isNaN_def quakeInf_def markerOf_def markerStyle_def js_ge_def)

text \<open>
  In \<open>components/earthquake-map.tsx\<close>, which has no check, a NaN coordinate reaches
  \<open>L.circleMarker\<close>, and the exception leaves the effect.
\<close>

lemma components_nan_throws:
  "markerEffect_components readyMap [quakeB] False
     = (readyMap\<lparr>markersRef := Some []\<rparr>, Some ''Invalid LatLng object'')"
  by (simp add: markerEffect_components_def markerCallback_components_def buildMarker_eq
      readyMap_def quakeB_def isNaN_def)

end
